theory Spec2Isabelle
  imports Main "HOL-Library.Word" "HOL-Library.Multiset"
begin

section \<open>Strings of the sign-in form\<close>

text \<open>
  The form of \<^verbatim>\<open>src/App.jsx\<close> works on JavaScript strings: sequences of 16-bit
  UTF-16 code units. \<^verbatim>\<open>input.length\<close> counts code units and a regular expression
  without the \<^verbatim>\<open>u\<close> flag consumes one code unit per atom, so a string is a list of
  16-bit words and \<open>length\<close> is \<^verbatim>\<open>.length\<close>. The string literals of the source are
  ASCII; \<open>js\<close> turns an Isabelle literal into the code units of the JavaScript one.
\<close>

type_synonym code_unit = "16 word"
type_synonym jsstring = "code_unit list"

definition js :: "string \<Rightarrow> jsstring" where
  "js s = map of_char s"

text \<open>
  Truthiness of a string value, as used by \<^verbatim>\<open>!input\<close> and by
  \<^verbatim>\<open>finalEmailError || finalPasswordError\<close>: only the empty string is falsy.
\<close>

definition truthy :: "jsstring \<Rightarrow> bool" where
  "truthy s = (s \<noteq> [])"

text \<open>
  The decimal digits of a natural number, as a template literal
  \<^verbatim>\<open>`${MIN_PASSWORD_LENGTH}`\<close> renders a non-negative integer.
\<close>

fun decimal :: "nat \<Rightarrow> jsstring" where
  "decimal n =
     (if n < 10 then [0x30 + of_nat n]
      else decimal (n div 10) @ [0x30 + of_nat (n mod 10)])"

declare decimal.simps [simp del]

section \<open>The regular expression\<close>

text \<open>
  \<^verbatim>\<open>const EMAIL_REGEX = /^\S+@\S+\.\S+$/;\<close> (line 5). The pattern is a sequence of
  terms: the assertions \<^verbatim>\<open>^\<close> and \<^verbatim>\<open>$\<close>, a single atom, or an atom under the greedy
  quantifier \<^verbatim>\<open>+\<close>. An atom is a literal code unit (\<^verbatim>\<open>@\<close>, \<^verbatim>\<open>\.\<close>) or the class \<^verbatim>\<open>\S\<close>.
\<close>

datatype atom = Literal code_unit | NonWhiteSpace

datatype regex_term = InputStart | InputEnd | Single atom | OneOrMore atom

text \<open>
  The class \<^verbatim>\<open>\s\<close> of ECMAScript: the WhiteSpace code points (TAB, VT, FF, SP, NBSP,
  ZWNBSP and the other space separators) and the LineTerminator code points
  (LF, CR, LS, PS). \<^verbatim>\<open>\S\<close> is its complement.
\<close>

definition isWhiteSpace :: "code_unit \<Rightarrow> bool" where
  "isWhiteSpace c =
     (c = 0x0009 \<or> c = 0x000B \<or> c = 0x000C \<or> c = 0x0020 \<or> c = 0x00A0 \<or> c = 0xFEFF \<or>
      c = 0x1680 \<or> (0x2000 \<le> c \<and> c \<le> 0x200A) \<or> c = 0x202F \<or> c = 0x205F \<or> c = 0x3000)"

definition isLineTerminator :: "code_unit \<Rightarrow> bool" where
  "isLineTerminator c = (c = 0x000A \<or> c = 0x000D \<or> c = 0x2028 \<or> c = 0x2029)"

definition class_s :: "code_unit \<Rightarrow> bool" where
  "class_s c = (isWhiteSpace c \<or> isLineTerminator c)"

fun accepts :: "atom \<Rightarrow> code_unit \<Rightarrow> bool" where
  "accepts (Literal l) c = (c = l)"
| "accepts NonWhiteSpace c = (\<not> class_s c)"

text \<open>
  The backtracking matcher. \<open>matches ts i rest\<close> tells whether the terms \<open>ts\<close> match
  at index \<open>i\<close> of the input, \<open>rest\<close> being the input from index \<open>i\<close> on. Without the
  \<^verbatim>\<open>m\<close> flag \<^verbatim>\<open>^\<close> holds at index 0 only and \<^verbatim>\<open>$\<close> at the end of the input only. The
  greedy \<^verbatim>\<open>+\<close> first tries to consume one more code unit and falls back to the rest
  of the pattern.
\<close>

fun matches :: "regex_term list \<Rightarrow> nat \<Rightarrow> jsstring \<Rightarrow> bool" where
  "matches [] i rest = True"
| "matches (InputStart # ts) i rest = (i = 0 \<and> matches ts i rest)"
| "matches (InputEnd # ts) i rest = (rest = [] \<and> matches ts i rest)"
| "matches (Single a # ts) i [] = False"
| "matches (Single a # ts) i (c # cs) = (accepts a c \<and> matches ts (Suc i) cs)"
| "matches (OneOrMore a # ts) i [] = False"
| "matches (OneOrMore a # ts) i (c # cs) =
     (accepts a c \<and> (matches (OneOrMore a # ts) (Suc i) cs \<or> matches ts (Suc i) cs))"

text \<open>
  \<^verbatim>\<open>RegExp.prototype.test\<close> for a pattern with neither the \<^verbatim>\<open>g\<close> nor the \<^verbatim>\<open>y\<close> flag:
  the search starts at index 0 whatever \<^verbatim>\<open>lastIndex\<close> holds, tries every start
  index up to the length of the input, and leaves the expression object unchanged.
\<close>

definition regex_test :: "regex_term list \<Rightarrow> jsstring \<Rightarrow> bool" where
  "regex_test r input =
     list_ex (\<lambda>i. matches r i (drop i input)) [0 ..< Suc (length input)]"

definition EMAIL_REGEX :: "regex_term list" where
  "EMAIL_REGEX =
     [InputStart, OneOrMore NonWhiteSpace, Single (Literal 0x40),
      OneOrMore NonWhiteSpace, Single (Literal 0x2E), OneOrMore NonWhiteSpace, InputEnd]"

definition MIN_PASSWORD_LENGTH :: nat where
  "MIN_PASSWORD_LENGTH = 6"

section \<open>The validators\<close>

text \<open>\<^verbatim>\<open>validateEmail\<close>, lines 58 to 62: three returns, in the order of the source.\<close>

definition validateEmail :: "jsstring \<Rightarrow> jsstring" where
  "validateEmail input =
     (if \<not> truthy input then js ''Email is required.''
      else if \<not> regex_test EMAIL_REGEX input
        then js ''Please enter a valid email address (e.g., user@domain.com).''
      else [])"

text \<open>\<^verbatim>\<open>validatePassword\<close>, lines 64 to 68; the second message is a template literal.\<close>

definition validatePassword :: "jsstring \<Rightarrow> jsstring" where
  "validatePassword input =
     (if \<not> truthy input then js ''Password is required.''
      else if length input < MIN_PASSWORD_LENGTH
        then js ''Password must be at least '' @ decimal MIN_PASSWORD_LENGTH @
             js '' characters long.''
      else [])"

section \<open>The state of the component and its handlers\<close>

text \<open>The five \<^verbatim>\<open>useState\<close> cells of \<^verbatim>\<open>App\<close>, lines 47 to 55.\<close>

record form_state =
  email :: jsstring
  password :: jsstring
  emailError :: jsstring
  passwordError :: jsstring
  isSubmitted :: bool

definition initial_state :: form_state where
  "initial_state =
     \<lparr>email = [], password = [], emailError = [], passwordError = [], isSubmitted = False\<rparr>"

text \<open>
  The setters returned by \<^verbatim>\<open>useState\<close>. Called with a value, a setter replaces its
  own cell at the next render and touches no other; the updates queued by one
  handler are applied together, in the order of the calls.
\<close>

definition setEmail :: "jsstring \<Rightarrow> form_state \<Rightarrow> form_state" where
  "setEmail v s = s\<lparr>email := v\<rparr>"

definition setPassword :: "jsstring \<Rightarrow> form_state \<Rightarrow> form_state" where
  "setPassword v s = s\<lparr>password := v\<rparr>"

definition setEmailError :: "jsstring \<Rightarrow> form_state \<Rightarrow> form_state" where
  "setEmailError v s = s\<lparr>emailError := v\<rparr>"

definition setPasswordError :: "jsstring \<Rightarrow> form_state \<Rightarrow> form_state" where
  "setPasswordError v s = s\<lparr>passwordError := v\<rparr>"

definition setIsSubmitted :: "bool \<Rightarrow> form_state \<Rightarrow> form_state" where
  "setIsSubmitted v s = s\<lparr>isSubmitted := v\<rparr>"

text \<open>
  \<^verbatim>\<open>handleEmailChange\<close> and \<^verbatim>\<open>handlePasswordChange\<close>, lines 71 to 83. The argument is
  \<^verbatim>\<open>e.target.value\<close>, the new text of the field.
\<close>

definition handleEmailChange :: "jsstring \<Rightarrow> form_state \<Rightarrow> form_state" where
  "handleEmailChange newEmail s =
     setIsSubmitted False (setEmailError (validateEmail newEmail) (setEmail newEmail s))"

definition handlePasswordChange :: "jsstring \<Rightarrow> form_state \<Rightarrow> form_state" where
  "handlePasswordChange newPassword s =
     setIsSubmitted False
       (setPasswordError (validatePassword newPassword) (setPassword newPassword s))"

text \<open>
  \<^verbatim>\<open>handleSubmit\<close>, lines 92 to 115. Besides the state it has two effects: it calls
  \<^verbatim>\<open>e.preventDefault()\<close> and it writes one line to the console. \<^verbatim>\<open>email\<close> and
  \<^verbatim>\<open>password\<close> are read from the state of the render the handler belongs to. The
  handler has no \<^verbatim>\<open>throw\<close> and calls nothing that raises, so it has no error result.
\<close>

datatype console_call =
  ConsoleError jsstring
| ConsoleLog jsstring jsstring jsstring

record submit_result =
  next_state :: form_state
  default_prevented :: bool
  console :: "console_call list"

definition handleSubmit :: "form_state \<Rightarrow> submit_result" where
  "handleSubmit s =
     (let finalEmailError = validateEmail (email s);
          finalPasswordError = validatePassword (password s);
          s1 = setPasswordError finalPasswordError (setEmailError finalEmailError s)
      in if truthy finalEmailError \<or> truthy finalPasswordError
         then \<lparr>next_state = setIsSubmitted False s1, default_prevented = True,
               console = [ConsoleError (js ''Submission failed due to invalid form data.'')]\<rparr>
         else \<lparr>next_state = setIsSubmitted True s1, default_prevented = True,
               console = [ConsoleLog (js ''Form Submitted Successfully!'') (email s) (password s)]\<rparr>)"

section \<open>The derived validity flag\<close>

text \<open>
  \<^verbatim>\<open>isFormValid\<close>, lines 87 to 89, is a \<^verbatim>\<open>useMemo\<close> value. The callback is
  \<open>isFormValid_compute\<close>; its dependencies are \<^verbatim>\<open>email\<close> and \<^verbatim>\<open>password\<close> (the two
  validators in the dependency list are \<^verbatim>\<open>useCallback\<close> values with an empty
  dependency list, the same functions at every render). \<^verbatim>\<open>useMemo\<close> keeps the
  dependencies and the value of the last computation and runs the callback
  again when a dependency differs.
\<close>

definition isFormValid_compute :: "jsstring \<times> jsstring \<Rightarrow> bool" where
  "isFormValid_compute deps =
     (validateEmail (fst deps) = [] \<and> validatePassword (snd deps) = [])"

record memo_cell =
  memo_deps :: "jsstring \<times> jsstring"
  memo_value :: bool

definition useMemo ::
  "(jsstring \<times> jsstring \<Rightarrow> bool) \<Rightarrow> memo_cell option \<Rightarrow> jsstring \<times> jsstring \<Rightarrow> memo_cell" where
  "useMemo compute previous deps =
     (case previous of
        None \<Rightarrow> \<lparr>memo_deps = deps, memo_value = compute deps\<rparr>
      | Some m \<Rightarrow>
          if memo_deps m = deps then m
          else \<lparr>memo_deps = deps, memo_value = compute deps\<rparr>)"

text \<open>
  A rendered component: the state cells and the memo cell of \<^verbatim>\<open>isFormValid\<close>. It is
  mounted on the initial state and rendered again after each event.
\<close>

record component =
  cells :: form_state
  isFormValid_memo :: memo_cell

definition render :: "memo_cell option \<Rightarrow> form_state \<Rightarrow> component" where
  "render previous s =
     \<lparr>cells = s,
      isFormValid_memo = useMemo isFormValid_compute previous (email s, password s)\<rparr>"

definition isFormValid :: "component \<Rightarrow> bool" where
  "isFormValid c = memo_value (isFormValid_memo c)"

definition mount :: component where
  "mount = render None initial_state"

datatype event = EmailChange jsstring | PasswordChange jsstring | Submit

fun handle :: "event \<Rightarrow> form_state \<Rightarrow> form_state" where
  "handle (EmailChange v) s = handleEmailChange v s"
| "handle (PasswordChange v) s = handlePasswordChange v s"
| "handle Submit s = next_state (handleSubmit s)"

definition dispatch :: "component \<Rightarrow> event \<Rightarrow> component" where
  "dispatch c ev = render (Some (isFormValid_memo c)) (handle ev (cells c))"

definition run_events :: "event list \<Rightarrow> component" where
  "run_events evs = foldl dispatch mount evs"

section \<open>The operations with their hidden state\<close>

text \<open>
  Two things outside the five state cells could make two runs of an operation
  differ: the expression object \<^verbatim>\<open>EMAIL_REGEX\<close>, a module-level object shared by all
  calls whose \<^verbatim>\<open>lastIndex\<close> property \<^verbatim>\<open>test\<close> reads and writes under the \<^verbatim>\<open>g\<close> and \<^verbatim>\<open>y\<close>
  flags, and the order in which the updates queued by a handler are applied at
  the next render. This section models both.

  A \<^verbatim>\<open>RegExp\<close> object: its pattern, the two flags that make \<^verbatim>\<open>test\<close> stateful, and
  \<^verbatim>\<open>lastIndex\<close>.
\<close>

record regexp =
  source :: "regex_term list"
  global :: bool
  sticky :: bool
  lastIndex :: nat

text \<open>
  The matcher again, now returning the end index of the first match the
  backtracking finds (the greedy alternative first), as \<^verbatim>\<open>lastIndex\<close> needs it.
\<close>

fun match_end :: "regex_term list \<Rightarrow> nat \<Rightarrow> jsstring \<Rightarrow> nat option" where
  "match_end [] i rest = Some i"
| "match_end (InputStart # ts) i rest = (if i = 0 then match_end ts i rest else None)"
| "match_end (InputEnd # ts) i rest = (if rest = [] then match_end ts i rest else None)"
| "match_end (Single a # ts) i [] = None"
| "match_end (Single a # ts) i (c # cs) =
     (if accepts a c then match_end ts (Suc i) cs else None)"
| "match_end (OneOrMore a # ts) i [] = None"
| "match_end (OneOrMore a # ts) i (c # cs) =
     (if accepts a c
      then (case match_end (OneOrMore a # ts) (Suc i) cs of
              Some e \<Rightarrow> Some e
            | None \<Rightarrow> match_end ts (Suc i) cs)
      else None)"

text \<open>
  The loop of \<^verbatim>\<open>RegExpBuiltinExec\<close>: from index \<open>li\<close>, fail when \<open>li\<close> is beyond the
  input, return the end index of a match at \<open>li\<close>, and otherwise fail under the
  \<^verbatim>\<open>y\<close> flag or go on at the next index.
\<close>

function search :: "regex_term list \<Rightarrow> bool \<Rightarrow> jsstring \<Rightarrow> nat \<Rightarrow> nat option" where
  "search pat stick S li =
     (if length S < li then None
      else (case match_end pat li (drop li S) of
              Some e \<Rightarrow> Some e
            | None \<Rightarrow> if stick then None else search pat stick S (Suc li)))"
  by pat_completeness auto
termination
  by (relation "measure (\<lambda>(pat, stick, S, li). Suc (length S) - li)") auto

declare search.simps [simp del]

text \<open>
  \<^verbatim>\<open>RegExp.prototype.test\<close> on an object with any flags: the search starts at
  \<^verbatim>\<open>lastIndex\<close> under \<^verbatim>\<open>g\<close> or \<^verbatim>\<open>y\<close> and at 0 otherwise; under \<^verbatim>\<open>g\<close> or \<^verbatim>\<open>y\<close> a failure
  resets \<^verbatim>\<open>lastIndex\<close> to 0 and a match sets it to the end index. The result is the
  answer and the object as the call leaves it.
\<close>

definition RegExp_test :: "regexp \<Rightarrow> jsstring \<Rightarrow> bool \<times> regexp" where
  "RegExp_test R S =
     (let li = (if global R \<or> sticky R then lastIndex R else 0)
      in case search (source R) (sticky R) S li of
           None \<Rightarrow> (False, if global R \<or> sticky R then R\<lparr>lastIndex := 0\<rparr> else R)
         | Some e \<Rightarrow> (True, if global R \<or> sticky R then R\<lparr>lastIndex := e\<rparr> else R))"

text \<open>
  The object the literal of line 5 creates, and the states that object can be
  in: the literal has no flags, flags cannot be changed, \<^verbatim>\<open>lastIndex\<close> can.
\<close>

definition EMAIL_REGEX_object :: regexp where
  "EMAIL_REGEX_object = \<lparr>source = EMAIL_REGEX, global = False, sticky = False, lastIndex = 0\<rparr>"

definition is_EMAIL_REGEX :: "regexp \<Rightarrow> bool" where
  "is_EMAIL_REGEX R = (source R = EMAIL_REGEX \<and> global R = False \<and> sticky R = False)"

text \<open>\<^verbatim>\<open>validateEmail\<close> with the expression object passed in and handed back.\<close>

definition validateEmail_exec :: "regexp \<Rightarrow> jsstring \<Rightarrow> jsstring \<times> regexp" where
  "validateEmail_exec R input =
     (if \<not> truthy input then (js ''Email is required.'', R)
      else (case RegExp_test R input of
              (found, R') \<Rightarrow>
                if \<not> found
                then (js ''Please enter a valid email address (e.g., user@domain.com).'', R')
                else ([], R')))"

text \<open>
  A call of a setter queues an update of its cell. A handler returns the
  updates it queued, in the order of its calls.
\<close>

datatype update =
  SetEmail jsstring
| SetPassword jsstring
| SetEmailError jsstring
| SetPasswordError jsstring
| SetIsSubmitted bool

fun apply_update :: "update \<Rightarrow> form_state \<Rightarrow> form_state" where
  "apply_update (SetEmail v) = setEmail v"
| "apply_update (SetPassword v) = setPassword v"
| "apply_update (SetEmailError v) = setEmailError v"
| "apply_update (SetPasswordError v) = setPasswordError v"
| "apply_update (SetIsSubmitted v) = setIsSubmitted v"

text \<open>
  The five operations, and what one call does: the text it returns (none for a
  handler), the updates it queues, the console lines and the expression object
  after the call. The bodies are those of lines 58 to 115, statement by statement.
\<close>

datatype operation =
  ValidateEmail jsstring
| ValidatePassword jsstring
| OnEmailChange jsstring
| OnPasswordChange jsstring
| OnSubmit

record call_result =
  returned :: "jsstring option"
  queued :: "update list"
  logged :: "console_call list"
  regexp_after :: regexp

fun exec_op :: "operation \<Rightarrow> form_state \<Rightarrow> regexp \<Rightarrow> call_result" where
  "exec_op (ValidateEmail v) s R =
     (case validateEmail_exec R v of
        (t, R') \<Rightarrow> \<lparr>returned = Some t, queued = [], logged = [], regexp_after = R'\<rparr>)"
| "exec_op (ValidatePassword v) s R =
     \<lparr>returned = Some (validatePassword v), queued = [], logged = [], regexp_after = R\<rparr>"
| "exec_op (OnEmailChange newEmail) s R =
     (case validateEmail_exec R newEmail of
        (t, R') \<Rightarrow>
          \<lparr>returned = None,
           queued = [SetEmail newEmail, SetEmailError t, SetIsSubmitted False],
           logged = [], regexp_after = R'\<rparr>)"
| "exec_op (OnPasswordChange newPassword) s R =
     \<lparr>returned = None,
      queued = [SetPassword newPassword, SetPasswordError (validatePassword newPassword),
                SetIsSubmitted False],
      logged = [], regexp_after = R\<rparr>"
| "exec_op OnSubmit s R =
     (case validateEmail_exec R (email s) of
        (finalEmailError, R') \<Rightarrow>
          let finalPasswordError = validatePassword (password s)
          in if truthy finalEmailError \<or> truthy finalPasswordError
             then \<lparr>returned = None,
                   queued = [SetEmailError finalEmailError, SetPasswordError finalPasswordError,
                             SetIsSubmitted False],
                   logged = [ConsoleError (js ''Submission failed due to invalid form data.'')],
                   regexp_after = R'\<rparr>
             else \<lparr>returned = None,
                   queued = [SetEmailError finalEmailError, SetPasswordError finalPasswordError,
                             SetIsSubmitted True],
                   logged = [ConsoleLog (js ''Form Submitted Successfully!'') (email s)
                               (password s)],
                   regexp_after = R'\<rparr>)"

text \<open>
  A run of an operation from a state and an expression object: the call, then
  the queued updates applied in any order.
\<close>

record outcome =
  out_text :: "jsstring option"
  out_state :: form_state
  out_console :: "console_call list"
  out_regexp :: regexp

inductive run_op :: "operation \<Rightarrow> form_state \<Rightarrow> regexp \<Rightarrow> outcome \<Rightarrow> bool" where
  commit:
    "mset order = mset (queued (exec_op op s R)) \<Longrightarrow>
     run_op op s R
       \<lparr>out_text = returned (exec_op op s R),
        out_state = fold apply_update order s,
        out_console = logged (exec_op op s R),
        out_regexp = regexp_after (exec_op op s R)\<rparr>"

section \<open>The pattern in the words of the specification\<close>

text \<open>
  A run of one or more non-whitespace code units, and a string that is such a
  run, \<^verbatim>\<open>@\<close>, such a run, \<^verbatim>\<open>.\<close>, such a run, and nothing else.
\<close>

definition nonspace_run :: "jsstring \<Rightarrow> bool" where
  "nonspace_run xs = (xs \<noteq> [] \<and> list_all (\<lambda>c. \<not> class_s c) xs)"

definition matches_email_pattern :: "jsstring \<Rightarrow> bool" where
  "matches_email_pattern s =
     (\<exists>a b c. nonspace_run a \<and> nonspace_run b \<and> nonspace_run c \<and>
        s = a @ [0x40] @ b @ [0x2E] @ c)"

section \<open>The invariant of the memo cell\<close>

text \<open>
  The memo cell of a rendered component is in step with its state cells: it was
  computed for the current \<^verbatim>\<open>email\<close> and \<^verbatim>\<open>password\<close>, and its value is what the
  callback gives on them.
\<close>

definition memo_ok :: "component \<Rightarrow> bool" where
  "memo_ok c =
     (memo_deps (isFormValid_memo c) = (email (cells c), password (cells c)) \<and>
      memo_value (isFormValid_memo c) = isFormValid_compute (memo_deps (isFormValid_memo c)))"

section \<open>Properties of strings and of the regular expression\<close>

lemma js_Nil_iff: "js s = [] \<longleftrightarrow> s = []"
  by (simp add: js_def)

lemma decimal_MIN_PASSWORD_LENGTH: "decimal MIN_PASSWORD_LENGTH = js ''6''"
  by (simp add: MIN_PASSWORD_LENGTH_def decimal.simps js_def)

lemma js_append: "js (xs @ ys) = js xs @ js ys"
  by (simp add: js_def)

lemma password_short_message:
  "js ''Password must be at least '' @ decimal MIN_PASSWORD_LENGTH @ js '' characters long.'' =
   js ''Password must be at least 6 characters long.''"
  unfolding decimal_MIN_PASSWORD_LENGTH js_append [symmetric] by simp


lemma regex_test_InputStart: "regex_test (InputStart # ts) s = matches ts 0 s"
proof -
  have "(\<exists>i\<in>set [0 ..< Suc (length s)]. i = 0 \<and> matches ts i (drop i s)) = matches ts 0 s"
    by auto
  then show ?thesis
    by (simp add: regex_test_def list_ex_iff del: upt_Suc)
qed

lemma matches_OneOrMore:
  "matches (OneOrMore a # ts) i xs \<longleftrightarrow>
     (\<exists>ys zs. xs = ys @ zs \<and> ys \<noteq> [] \<and> list_all (accepts a) ys \<and> matches ts (i + length ys) zs)"
proof (induction xs arbitrary: i)
  case Nil
  then show ?case by simp
next
  case (Cons c cs)
  show ?case
  proof
    assume L: "matches (OneOrMore a # ts) i (c # cs)"
    then have ac: "accepts a c" by simp
    from L consider (more) "matches (OneOrMore a # ts) (Suc i) cs" | (stop) "matches ts (Suc i) cs"
      by auto
    then show "\<exists>ys zs. c # cs = ys @ zs \<and> ys \<noteq> [] \<and> list_all (accepts a) ys \<and> matches ts (i + length ys) zs"
    proof cases
      case more
      then obtain ys zs where h: "cs = ys @ zs" "ys \<noteq> []" "list_all (accepts a) ys"
          "matches ts (Suc i + length ys) zs"
        using Cons.IH [of "Suc i"] by blast
      have "c # cs = (c # ys) @ zs \<and> c # ys \<noteq> [] \<and> list_all (accepts a) (c # ys) \<and>
            matches ts (i + length (c # ys)) zs"
        using h ac by simp
      then show ?thesis by blast
    next
      case stop
      have "c # cs = [c] @ cs \<and> [c] \<noteq> [] \<and> list_all (accepts a) [c] \<and>
            matches ts (i + length [c]) cs"
        using stop ac by simp
      then show ?thesis by blast
    qed
  next
    assume "\<exists>ys zs. c # cs = ys @ zs \<and> ys \<noteq> [] \<and> list_all (accepts a) ys \<and> matches ts (i + length ys) zs"
    then obtain ys zs where h: "c # cs = ys @ zs" "ys \<noteq> []" "list_all (accepts a) ys"
        "matches ts (i + length ys) zs"
      by blast
    from h(2) obtain y ys' where ys: "ys = y # ys'" by (cases ys) auto
    with h have yc: "y = c" and cs: "cs = ys' @ zs" and ac: "accepts a c"
      and all: "list_all (accepts a) ys'" and m: "matches ts (Suc i + length ys') zs"
      by auto
    show "matches (OneOrMore a # ts) i (c # cs)"
    proof (cases "ys' = []")
      case True
      with cs m ac show ?thesis by simp
    next
      case False
      with cs all m have "matches (OneOrMore a # ts) (Suc i) cs"
        using Cons.IH [of "Suc i"] by blast
      with ac show ?thesis by simp
    qed
  qed
qed

lemma matches_OneOrMoreI:
  "ys \<noteq> [] \<Longrightarrow> list_all (accepts a) ys \<Longrightarrow> matches ts (i + length ys) zs
     \<Longrightarrow> matches (OneOrMore a # ts) i (ys @ zs)"
  unfolding matches_OneOrMore by blast

lemma matches_Single:
  "matches (Single a # ts) i xs \<longleftrightarrow> (\<exists>c cs. xs = c # cs \<and> accepts a c \<and> matches ts (Suc i) cs)"
  by (cases xs) auto

lemma accepts_NonWhiteSpace: "accepts NonWhiteSpace = (\<lambda>c. \<not> class_s c)"
  by (rule ext) simp

lemma regex_test_EMAIL_REGEX:
  "regex_test EMAIL_REGEX s \<longleftrightarrow> matches_email_pattern s"
  unfolding matches_email_pattern_def
proof
  assume "regex_test EMAIL_REGEX s"
  then have "matches [OneOrMore NonWhiteSpace, Single (Literal 0x40),
      OneOrMore NonWhiteSpace, Single (Literal 0x2E), OneOrMore NonWhiteSpace, InputEnd] 0 s"
    by (simp add: EMAIL_REGEX_def regex_test_InputStart)
  then obtain a r1 where a: "s = a @ r1" "a \<noteq> []" "list_all (accepts NonWhiteSpace) a"
    and m1: "matches [Single (Literal 0x40),
      OneOrMore NonWhiteSpace, Single (Literal 0x2E), OneOrMore NonWhiteSpace, InputEnd] (0 + length a) r1"
    unfolding matches_OneOrMore by blast
  from m1 obtain r2 where r1: "r1 = 0x40 # r2"
    and m2: "matches [OneOrMore NonWhiteSpace, Single (Literal 0x2E), OneOrMore NonWhiteSpace, InputEnd]
       (Suc (0 + length a)) r2"
    unfolding matches_Single by auto
  from m2 obtain b r3 where b: "r2 = b @ r3" "b \<noteq> []" "list_all (accepts NonWhiteSpace) b"
    and m3: "matches [Single (Literal 0x2E), OneOrMore NonWhiteSpace, InputEnd]
       (Suc (0 + length a) + length b) r3"
    unfolding matches_OneOrMore by blast
  from m3 obtain r4 where r3: "r3 = 0x2E # r4"
    and m4: "matches [OneOrMore NonWhiteSpace, InputEnd] (Suc (Suc (0 + length a) + length b)) r4"
    unfolding matches_Single by auto
  from m4 obtain c r5 where c: "r4 = c @ r5" "c \<noteq> []" "list_all (accepts NonWhiteSpace) c"
    and m5: "matches [InputEnd] (Suc (Suc (0 + length a) + length b) + length c) r5"
    unfolding matches_OneOrMore by blast
  from m5 have r5: "r5 = []" by simp
  have "nonspace_run a \<and> nonspace_run b \<and> nonspace_run c \<and> s = a @ [0x40] @ b @ [0x2E] @ c"
    using a b c r1 r3 r5 by (simp add: nonspace_run_def accepts_NonWhiteSpace)
  then show "\<exists>a b c. nonspace_run a \<and> nonspace_run b \<and> nonspace_run c \<and>
      s = a @ [0x40] @ b @ [0x2E] @ c"
    by blast
next
  assume "\<exists>a b c. nonspace_run a \<and> nonspace_run b \<and> nonspace_run c \<and>
      s = a @ [0x40] @ b @ [0x2E] @ c"
  then obtain a b c where h: "nonspace_run a" "nonspace_run b" "nonspace_run c"
    and s: "s = a @ [0x40] @ b @ [0x2E] @ c"
    by blast
  from h have ne: "a \<noteq> []" "b \<noteq> []" "c \<noteq> []"
    and ok: "list_all (accepts NonWhiteSpace) a" "list_all (accepts NonWhiteSpace) b"
      "list_all (accepts NonWhiteSpace) c"
    by (simp_all add: nonspace_run_def accepts_NonWhiteSpace)
  have m5: "matches [InputEnd] i []" for i by simp
  have m4: "matches [OneOrMore NonWhiteSpace, InputEnd] i (c @ [])" for i
    by (rule matches_OneOrMoreI [OF ne(3) ok(3) m5])
  have m3: "matches [Single (Literal 0x2E), OneOrMore NonWhiteSpace, InputEnd] i (0x2E # c)" for i
    using m4 by simp
  have m2: "matches [OneOrMore NonWhiteSpace, Single (Literal 0x2E), OneOrMore NonWhiteSpace, InputEnd]
       i (b @ 0x2E # c)" for i
    by (rule matches_OneOrMoreI [OF ne(2) ok(2) m3])
  have m1: "matches [Single (Literal 0x40), OneOrMore NonWhiteSpace, Single (Literal 0x2E),
       OneOrMore NonWhiteSpace, InputEnd] i (0x40 # b @ 0x2E # c)" for i
    using m2 by simp
  have "matches [OneOrMore NonWhiteSpace, Single (Literal 0x40), OneOrMore NonWhiteSpace,
       Single (Literal 0x2E), OneOrMore NonWhiteSpace, InputEnd] 0 (a @ 0x40 # b @ 0x2E # c)"
    by (rule matches_OneOrMoreI [OF ne(1) ok(1) m1])
  then show "regex_test EMAIL_REGEX s"
    by (simp add: EMAIL_REGEX_def regex_test_InputStart s)
qed


section \<open>Properties of the validators\<close>

lemma matches_email_pattern_has_at: "matches_email_pattern s \<Longrightarrow> 0x40 \<in> set s"
  by (auto simp: matches_email_pattern_def)

text \<open>
  Claim C1. For every string \<open>s\<close>, \<open>validateEmail s\<close> is the empty string exactly when
  \<open>s\<close> is not empty and is, as a whole, a run of one or more non-whitespace code
  units, \<^verbatim>\<open>@\<close>, such a run, \<^verbatim>\<open>.\<close>, such a run. For the empty string it is
  \<^verbatim>\<open>Email is required.\<close>, and for a non-empty string of another shape it is
  \<^verbatim>\<open>Please enter a valid email address (e.g., user@domain.com).\<close>
\<close>

theorem validateEmail_spec:
  "(validateEmail s = [] \<longleftrightarrow> s \<noteq> [] \<and> matches_email_pattern s) \<and>
   (s = [] \<longrightarrow> validateEmail s = js ''Email is required.'') \<and>
   (s \<noteq> [] \<and> \<not> matches_email_pattern s \<longrightarrow>
      validateEmail s = js ''Please enter a valid email address (e.g., user@domain.com).'')"
  by (simp add: validateEmail_def truthy_def regex_test_EMAIL_REGEX js_Nil_iff)

theorem validateEmail_spec_witness:
  "js ''bad'' \<noteq> [] \<and> \<not> matches_email_pattern (js ''bad'') \<and>
   validateEmail (js ''bad'') =
     js ''Please enter a valid email address (e.g., user@domain.com).'' \<and>
   validateEmail [] = js ''Email is required.'' \<and>
   matches_email_pattern (js ''user@domain.com'') \<and>
   validateEmail (js ''user@domain.com'') = []"
proof -
  have ne: "js ''bad'' \<noteq> []" "js ''user@domain.com'' \<noteq> []"
    by (simp_all add: js_def)
  have bad: "\<not> matches_email_pattern (js ''bad'')"
  proof
    assume "matches_email_pattern (js ''bad'')"
    then have "0x40 \<in> set (js ''bad'')" by (rule matches_email_pattern_has_at)
    then show False by (simp add: js_def)
  qed
  have run: "nonspace_run (js ''user'')" "nonspace_run (js ''domain'')" "nonspace_run (js ''com'')"
    by (simp_all add: nonspace_run_def js_def class_s_def isWhiteSpace_def isLineTerminator_def)
  have "js ''user@domain.com'' = js ''user'' @ [0x40] @ js ''domain'' @ [0x2E] @ js ''com''"
    by (simp add: js_def)
  with run have good: "matches_email_pattern (js ''user@domain.com'')"
    unfolding matches_email_pattern_def by blast
  show ?thesis
    using validateEmail_spec [of "js ''bad''"] validateEmail_spec [of "[]"]
      validateEmail_spec [of "js ''user@domain.com''"] ne bad good
    by blast
qed

text \<open>
  Claim C2. For every string \<open>s\<close>, \<open>validatePassword s\<close> is the empty string exactly
  when \<open>s\<close> has at least 6 code units (\<^verbatim>\<open>s.length\<close>). For the empty string it is
  \<^verbatim>\<open>Password is required.\<close>, and for a non-empty string of fewer than 6 code units
  it is \<^verbatim>\<open>Password must be at least 6 characters long.\<close>
\<close>

theorem validatePassword_spec:
  "(validatePassword s = [] \<longleftrightarrow> 6 \<le> length s) \<and>
   (s = [] \<longrightarrow> validatePassword s = js ''Password is required.'') \<and>
   (s \<noteq> [] \<and> length s < 6 \<longrightarrow>
      validatePassword s = js ''Password must be at least 6 characters long.'')"
proof -
  have "js ''Password must be at least 6 characters long.'' \<noteq> []"
    by (simp add: js_Nil_iff)
  then show ?thesis
    unfolding validatePassword_def password_short_message truthy_def
    by (auto simp: MIN_PASSWORD_LENGTH_def js_Nil_iff)
qed

theorem validatePassword_spec_witness:
  "js ''abc'' \<noteq> [] \<and> length (js ''abc'') < 6 \<and>
   validatePassword (js ''abc'') = js ''Password must be at least 6 characters long.'' \<and>
   validatePassword [] = js ''Password is required.'' \<and>
   6 \<le> length (js ''abcdef'') \<and> validatePassword (js ''abcdef'') = []"
proof -
  have "js ''abc'' \<noteq> []" "length (js ''abc'') < 6" "6 \<le> length (js ''abcdef'')"
    by (simp_all add: js_def)
  then show ?thesis
    using validatePassword_spec [of "js ''abc''"] validatePassword_spec [of "[]"]
      validatePassword_spec [of "js ''abcdef''"]
    by blast
qed

lemma validateEmail_Nil: "validateEmail [] = js ''Email is required.''"
  by (simp add: validateEmail_def truthy_def)

lemma validatePassword_Nil: "validatePassword [] = js ''Password is required.''"
  by (simp add: validatePassword_def truthy_def)

section \<open>Properties of the handlers\<close>

lemmas setters = setEmail_def setPassword_def setEmailError_def setPasswordError_def
  setIsSubmitted_def

lemma handleSubmit_next_state:
  "next_state (handleSubmit s) =
     s\<lparr>emailError := validateEmail (email s),
       passwordError := validatePassword (password s),
       isSubmitted := (validateEmail (email s) = [] \<and> validatePassword (password s) = [])\<rparr>"
  by (simp add: handleSubmit_def Let_def truthy_def setters)

text \<open>
  Claim C3. From every state whose \<open>email\<close> and \<open>password\<close> both validate to the
  empty string, \<open>handleSubmit\<close> leads to a state with \<open>isSubmitted\<close> true and both
  error cells empty. The handler is a total function of the state: the source
  has no \<^verbatim>\<open>throw\<close> on this path, and the model no error result.
\<close>

theorem handleSubmit_valid:
  assumes "validateEmail (email s) = []" and "validatePassword (password s) = []"
  shows "isSubmitted (next_state (handleSubmit s)) = True \<and>
         emailError (next_state (handleSubmit s)) = [] \<and>
         passwordError (next_state (handleSubmit s)) = []"
  using assms by (simp add: handleSubmit_next_state)

theorem handleSubmit_valid_witness:
  "validateEmail (js ''user@domain.com'') = [] \<and> validatePassword (js ''abcdef'') = [] \<and>
   next_state (handleSubmit \<lparr>email = js ''user@domain.com'', password = js ''abcdef'',
       emailError = js ''Email is required.'', passwordError = js ''Password is required.'',
       isSubmitted = False\<rparr>) =
     \<lparr>email = js ''user@domain.com'', password = js ''abcdef'',
      emailError = [], passwordError = [], isSubmitted = True\<rparr>"
proof -
  let ?s = "\<lparr>email = js ''user@domain.com'', password = js ''abcdef'',
       emailError = js ''Email is required.'', passwordError = js ''Password is required.'',
       isSubmitted = False\<rparr>"
  have e: "validateEmail (js ''user@domain.com'') = []" by code_simp
  have p: "validatePassword (js ''abcdef'') = []" by code_simp
  have same: "email (next_state (handleSubmit ?s)) = js ''user@domain.com'' \<and>
      password (next_state (handleSubmit ?s)) = js ''abcdef''"
    by (simp add: handleSubmit_next_state)
  have "isSubmitted (next_state (handleSubmit ?s)) = True \<and>
         emailError (next_state (handleSubmit ?s)) = [] \<and>
         passwordError (next_state (handleSubmit ?s)) = []"
    using handleSubmit_valid [of ?s] e p by simp
  with same have "next_state (handleSubmit ?s) =
     \<lparr>email = js ''user@domain.com'', password = js ''abcdef'',
      emailError = [], passwordError = [], isSubmitted = True\<rparr>"
    by (cases "next_state (handleSubmit ?s)") simp
  with e p show ?thesis by simp
qed

text \<open>
  Claim C4. From every state in which a validator gives a message for \<open>email\<close>
  or for \<open>password\<close>, \<open>handleSubmit\<close> leads to a state with \<open>isSubmitted\<close> false
  whose error cells hold exactly the validators' texts. With \<^verbatim>\<open>bad\<close> and
  \<^verbatim>\<open>secret1\<close> the email error is the invalid-address message and the password
  error is empty.
\<close>

theorem handleSubmit_invalid:
  assumes "validateEmail (email s) \<noteq> [] \<or> validatePassword (password s) \<noteq> []"
  shows "isSubmitted (next_state (handleSubmit s)) = False \<and>
         emailError (next_state (handleSubmit s)) = validateEmail (email s) \<and>
         passwordError (next_state (handleSubmit s)) = validatePassword (password s)"
  using assms by (auto simp: handleSubmit_next_state)

theorem handleSubmit_invalid_witness:
  "validateEmail (js ''bad'') \<noteq> [] \<and>
   isSubmitted (next_state (handleSubmit \<lparr>email = js ''bad'', password = js ''secret1'',
       emailError = [], passwordError = [], isSubmitted = False\<rparr>)) = False \<and>
   emailError (next_state (handleSubmit \<lparr>email = js ''bad'', password = js ''secret1'',
       emailError = [], passwordError = [], isSubmitted = False\<rparr>)) =
     js ''Please enter a valid email address (e.g., user@domain.com).'' \<and>
   passwordError (next_state (handleSubmit \<lparr>email = js ''bad'', password = js ''secret1'',
       emailError = [], passwordError = [], isSubmitted = False\<rparr>)) = []"
proof -
  let ?s = "\<lparr>email = js ''bad'', password = js ''secret1'',
       emailError = [], passwordError = [], isSubmitted = False\<rparr>"
  have e: "validateEmail (js ''bad'') =
      js ''Please enter a valid email address (e.g., user@domain.com).''"
    by code_simp
  have p: "validatePassword (js ''secret1'') = []" by code_simp
  have ne: "validateEmail (js ''bad'') \<noteq> []"
    unfolding e by (simp add: js_Nil_iff)
  show ?thesis
    using handleSubmit_invalid [of ?s] e p ne by simp
qed

text \<open>
  Claim C5. After \<open>handleSubmit\<close>, accepted or rejected, \<open>emailError\<close> is
  \<open>validateEmail\<close> of the \<open>email\<close> the handler was called with and \<open>passwordError\<close> is
  \<open>validatePassword\<close> of that \<open>password\<close>, whatever the error cells held before;
  these are also the fields of the state after the call.
\<close>

theorem handleSubmit_recomputes_errors:
  "emailError (next_state (handleSubmit s)) = validateEmail (email s) \<and>
   passwordError (next_state (handleSubmit s)) = validatePassword (password s) \<and>
   emailError (next_state (handleSubmit s)) =
     validateEmail (email (next_state (handleSubmit s))) \<and>
   passwordError (next_state (handleSubmit s)) =
     validatePassword (password (next_state (handleSubmit s)))"
  by (simp add: handleSubmit_next_state)

text \<open>
  Claim C6. \<open>handleEmailChange v\<close> gives a state with \<open>email = v\<close>,
  \<open>emailError = validateEmail v\<close> and \<open>isSubmitted\<close> false, and
  \<open>handlePasswordChange v\<close> does the same on \<open>password\<close> and \<open>passwordError\<close>; from a
  submitted state \<open>isSubmitted\<close> goes back to false even when the new text is
  the field's current text.
\<close>

theorem handleChange_spec:
  "email (handleEmailChange v s) = v \<and>
   emailError (handleEmailChange v s) = validateEmail v \<and>
   isSubmitted (handleEmailChange v s) = False \<and>
   password (handlePasswordChange v s) = v \<and>
   passwordError (handlePasswordChange v s) = validatePassword v \<and>
   isSubmitted (handlePasswordChange v s) = False \<and>
   isSubmitted (handleEmailChange (email s) (s\<lparr>isSubmitted := True\<rparr>)) = False \<and>
   isSubmitted (handlePasswordChange (password s) (s\<lparr>isSubmitted := True\<rparr>)) = False"
  by (simp add: handleEmailChange_def handlePasswordChange_def setters)

text \<open>
  Claim C10. \<open>handleSubmit\<close> changes neither \<open>email\<close> nor \<open>password\<close>;
  \<open>handleEmailChange\<close> changes neither \<open>password\<close> nor \<open>passwordError\<close>;
  \<open>handlePasswordChange\<close> changes neither \<open>email\<close> nor \<open>emailError\<close>.
\<close>

theorem handlers_frame:
  "email (next_state (handleSubmit s)) = email s \<and>
   password (next_state (handleSubmit s)) = password s \<and>
   password (handleEmailChange v s) = password s \<and>
   passwordError (handleEmailChange v s) = passwordError s \<and>
   email (handlePasswordChange v s) = email s \<and>
   emailError (handlePasswordChange v s) = emailError s"
  by (simp add: handleSubmit_next_state handleEmailChange_def handlePasswordChange_def setters)

section \<open>Properties of the rendered component\<close>

lemma render_cells: "cells (render previous s) = s"
  by (simp add: render_def)

lemma memo_ok_render_None: "memo_ok (render None s)"
  by (simp add: memo_ok_def render_def useMemo_def)

lemma memo_ok_render_Some:
  "memo_value m = isFormValid_compute (memo_deps m) \<Longrightarrow> memo_ok (render (Some m) s)"
  by (simp add: memo_ok_def render_def useMemo_def)

lemma memo_ok_dispatch: "memo_ok c \<Longrightarrow> memo_ok (dispatch c ev)"
  unfolding dispatch_def by (rule memo_ok_render_Some) (simp add: memo_ok_def)

lemma memo_ok_foldl: "memo_ok c \<Longrightarrow> memo_ok (foldl dispatch c evs)"
  by (induction evs arbitrary: c) (simp_all add: memo_ok_dispatch)

lemma memo_ok_run_events: "memo_ok (run_events evs)"
  unfolding run_events_def mount_def by (rule memo_ok_foldl) (rule memo_ok_render_None)

text \<open>
  Claim C7. In every component reached from the mount by a sequence of events,
  \<open>isFormValid\<close> is true exactly when \<open>validateEmail\<close> of the current \<open>email\<close> and
  \<open>validatePassword\<close> of the current \<open>password\<close> are both the empty string: the
  memoised value is always the one a fresh computation gives.
\<close>

theorem isFormValid_spec:
  "isFormValid (run_events evs) =
     (validateEmail (email (cells (run_events evs))) = [] \<and>
      validatePassword (password (cells (run_events evs))) = [])"
  using memo_ok_run_events [of evs]
  by (simp add: memo_ok_def isFormValid_def isFormValid_compute_def)

lemma cells_mount: "cells mount = initial_state"
  by (simp add: mount_def render_cells)

lemma cells_dispatch: "cells (dispatch c ev) = handle ev (cells c)"
  by (simp add: dispatch_def render_cells)

lemma password_edits_keep_email:
  "email (cells (foldl dispatch mount (map PasswordChange vs))) = [] \<and>
   emailError (cells (foldl dispatch mount (map PasswordChange vs))) = []"
  by (induction vs rule: rev_induct)
    (simp_all add: cells_mount initial_state_def cells_dispatch handlePasswordChange_def setters)

lemma email_edits_keep_password:
  "password (cells (foldl dispatch mount (map EmailChange vs))) = [] \<and>
   passwordError (cells (foldl dispatch mount (map EmailChange vs))) = []"
  by (induction vs rule: rev_induct)
    (simp_all add: cells_mount initial_state_def cells_dispatch handleEmailChange_def setters)

text \<open>
  Claim C9, as stated, fails: it has the equation \<open>emailError = validateEmail email\<close>
  broken only until the first edit, but after a first edit of the password
  field it is still broken.
\<close>

theorem mount_first_edit_counterexample:
  "emailError (cells (dispatch mount (PasswordChange (js ''abcdef'')))) \<noteq>
   validateEmail (email (cells (dispatch mount (PasswordChange (js ''abcdef'')))))"
  using password_edits_keep_email [of "[js ''abcdef'']"] js_Nil_iff [of "''Email is required.''"]
  by (simp add: validateEmail_Nil)

text \<open>
  Claim C9, amended. At the mount the four text cells are empty and
  \<open>isSubmitted\<close> is false; \<open>isFormValid\<close> is false although both error cells are
  empty. The equation \<open>emailError = validateEmail email\<close> is broken at the mount
  and after any number of password edits, and holds after an edit of the email
  field or a submit; the equation \<open>passwordError = validatePassword password\<close> is
  broken at the mount and after any number of email edits, and holds after an
  edit of the password field or a submit.
\<close>

theorem mount_spec:
  "email (cells mount) = [] \<and> password (cells mount) = [] \<and>
   emailError (cells mount) = [] \<and> passwordError (cells mount) = [] \<and>
   isSubmitted (cells mount) = False \<and>
   isFormValid mount = False \<and>
   emailError (cells (foldl dispatch mount (map PasswordChange vs))) \<noteq>
     validateEmail (email (cells (foldl dispatch mount (map PasswordChange vs)))) \<and>
   passwordError (cells (foldl dispatch mount (map EmailChange vs))) \<noteq>
     validatePassword (password (cells (foldl dispatch mount (map EmailChange vs)))) \<and>
   emailError (cells (dispatch c (EmailChange v))) =
     validateEmail (email (cells (dispatch c (EmailChange v)))) \<and>
   passwordError (cells (dispatch c (PasswordChange v))) =
     validatePassword (password (cells (dispatch c (PasswordChange v)))) \<and>
   emailError (cells (dispatch c Submit)) =
     validateEmail (email (cells (dispatch c Submit))) \<and>
   passwordError (cells (dispatch c Submit)) =
     validatePassword (password (cells (dispatch c Submit)))"
proof -
  have v: "isFormValid mount = False"
    by (simp add: isFormValid_def mount_def render_def useMemo_def isFormValid_compute_def
        initial_state_def validateEmail_Nil js_Nil_iff)
  have i: "email (cells mount) = [] \<and> password (cells mount) = [] \<and>
      emailError (cells mount) = [] \<and> passwordError (cells mount) = [] \<and>
      isSubmitted (cells mount) = False"
    by (simp add: cells_mount initial_state_def)
  have n: "emailError (cells (foldl dispatch mount (map PasswordChange vs))) \<noteq>
        validateEmail (email (cells (foldl dispatch mount (map PasswordChange vs)))) \<and>
      passwordError (cells (foldl dispatch mount (map EmailChange vs))) \<noteq>
        validatePassword (password (cells (foldl dispatch mount (map EmailChange vs))))"
    using js_Nil_iff [of "''Email is required.''"] js_Nil_iff [of "''Password is required.''"]
    by (simp add: password_edits_keep_email email_edits_keep_password validateEmail_Nil
        validatePassword_Nil)
  have a: "emailError (cells (dispatch c (EmailChange v))) =
        validateEmail (email (cells (dispatch c (EmailChange v)))) \<and>
      passwordError (cells (dispatch c (PasswordChange v))) =
        validatePassword (password (cells (dispatch c (PasswordChange v)))) \<and>
      emailError (cells (dispatch c Submit)) =
        validateEmail (email (cells (dispatch c Submit))) \<and>
      passwordError (cells (dispatch c Submit)) =
        validatePassword (password (cells (dispatch c Submit)))"
    by (simp add: cells_dispatch handleSubmit_next_state handleEmailChange_def
        handlePasswordChange_def setters)
  from v i n a show ?thesis by simp
qed

section \<open>Determinism of the operations\<close>

lemma matches_match_end: "matches ts i rest \<longleftrightarrow> match_end ts i rest \<noteq> None"
  by (induction ts i rest rule: matches.induct) (auto split: option.splits)

lemma search_unsticky:
  "search pat False S li \<noteq> None \<longleftrightarrow> (\<exists>i. li \<le> i \<and> i \<le> length S \<and> matches pat i (drop i S))"
proof (induction pat "False" S li rule: search.induct)
  case (1 pat S li)
  show ?case
  proof (cases "length S < li")
    case True
    then show ?thesis by (subst search.simps) auto
  next
    case False
    show ?thesis
    proof (cases "match_end pat li (drop li S)")
      case (Some e)
      then have "matches pat li (drop li S)" by (simp add: matches_match_end)
      with False Some show ?thesis
        by (subst search.simps) (auto intro: exI [of _ li])
    next
      case None
      then have nm: "\<not> matches pat li (drop li S)" by (simp add: matches_match_end)
      have "search pat False S li = search pat False S (Suc li)"
        using False None by (subst search.simps) simp
      also have "\<dots> \<noteq> None \<longleftrightarrow> (\<exists>i. Suc li \<le> i \<and> i \<le> length S \<and> matches pat i (drop i S))"
        using "1" [OF False None] by simp
      also have "\<dots> \<longleftrightarrow> (\<exists>i. li \<le> i \<and> i \<le> length S \<and> matches pat i (drop i S))"
        using nm by (metis Suc_leD Suc_leI le_neq_implies_less)
      finally show ?thesis .
    qed
  qed
qed

lemma regex_test_search: "regex_test pat S \<longleftrightarrow> search pat False S 0 \<noteq> None"
  unfolding search_unsticky regex_test_def list_ex_iff
  by (auto simp del: upt_Suc simp: less_Suc_eq_le)

lemma RegExp_test_unflagged:
  "global R = False \<Longrightarrow> sticky R = False \<Longrightarrow> RegExp_test R S = (regex_test (source R) S, R)"
  by (cases "search (source R) False S 0") (simp_all add: RegExp_test_def regex_test_search)

lemma validateEmail_exec_EMAIL_REGEX:
  "is_EMAIL_REGEX R \<Longrightarrow> validateEmail_exec R v = (validateEmail v, R)"
  by (simp add: is_EMAIL_REGEX_def validateEmail_exec_def validateEmail_def RegExp_test_unflagged)

lemma exec_op_EMAIL_REGEX:
  "is_EMAIL_REGEX R \<Longrightarrow>
   exec_op op s R = (exec_op op s EMAIL_REGEX_object)\<lparr>regexp_after := R\<rparr>"
proof -
  assume R: "is_EMAIL_REGEX R"
  have R0: "is_EMAIL_REGEX EMAIL_REGEX_object"
    by (simp add: is_EMAIL_REGEX_def EMAIL_REGEX_object_def)
  show ?thesis
    by (cases op)
      (simp_all add: validateEmail_exec_EMAIL_REGEX [OF R] validateEmail_exec_EMAIL_REGEX [OF R0]
        Let_def)
qed

lemma queued_commute:
  "x \<in> set (queued (exec_op op s R)) \<Longrightarrow> y \<in> set (queued (exec_op op s R)) \<Longrightarrow>
   apply_update x \<circ> apply_update y = apply_update y \<circ> apply_update x"
  by (cases op)
    (auto simp: setters fun_eq_iff Let_def split: prod.splits if_splits)

lemma fold_queued_order:
  assumes "mset order = mset (queued (exec_op op s R))"
  shows "fold apply_update order s' = fold apply_update (queued (exec_op op s R)) s'"
proof -
  have "fold apply_update (queued (exec_op op s R)) = fold apply_update order"
    by (rule fold_multiset_equiv [OF queued_commute assms [symmetric]])
  then show ?thesis by simp
qed

lemma run_op_outcome:
  assumes "is_EMAIL_REGEX R" and "run_op op s R out"
  shows "out = \<lparr>out_text = returned (exec_op op s EMAIL_REGEX_object),
               out_state = fold apply_update (queued (exec_op op s EMAIL_REGEX_object)) s,
               out_console = logged (exec_op op s EMAIL_REGEX_object),
               out_regexp = R\<rparr>"
  using assms(2)
proof cases
  case (commit order)
  have q: "queued (exec_op op s R) = queued (exec_op op s EMAIL_REGEX_object)"
    and t: "returned (exec_op op s R) = returned (exec_op op s EMAIL_REGEX_object)"
    and l: "logged (exec_op op s R) = logged (exec_op op s EMAIL_REGEX_object)"
    and r: "regexp_after (exec_op op s R) = R"
    by (simp_all add: exec_op_EMAIL_REGEX [OF assms(1)])
  have "fold apply_update order s = fold apply_update (queued (exec_op op s R)) s"
    by (rule fold_queued_order [OF commit(2)])
  with commit(1) q t l r show ?thesis by simp
qed

text \<open>
  Claim C8. Two runs of the same operation (a validator on an input, a change
  handler on a new text, the submit handler) from the same state give the same
  returned text, the same next state and the same console lines, whatever
  \<^verbatim>\<open>lastIndex\<close> the expression object holds in either run and in whatever order
  the queued updates are applied; both runs leave the expression object as it
  was.
\<close>

theorem operations_deterministic:
  assumes "is_EMAIL_REGEX R1" and "is_EMAIL_REGEX R2"
    and "run_op op s R1 out1" and "run_op op s R2 out2"
  shows "out_text out1 = out_text out2 \<and> out_state out1 = out_state out2 \<and>
         out_console out1 = out_console out2 \<and>
         out_regexp out1 = R1 \<and> out_regexp out2 = R2"
  using run_op_outcome [OF assms(1) assms(3)] run_op_outcome [OF assms(2) assms(4)]
  by simp

theorem operations_deterministic_witness:
  "is_EMAIL_REGEX EMAIL_REGEX_object \<and>
   is_EMAIL_REGEX (EMAIL_REGEX_object\<lparr>lastIndex := 3\<rparr>) \<and>
   run_op OnSubmit
     \<lparr>email = js ''bad'', password = js ''secret1'', emailError = [], passwordError = [],
      isSubmitted = True\<rparr>
     EMAIL_REGEX_object
     \<lparr>out_text = None,
      out_state =
        \<lparr>email = js ''bad'', password = js ''secret1'',
         emailError = js ''Please enter a valid email address (e.g., user@domain.com).'',
         passwordError = [], isSubmitted = False\<rparr>,
      out_console = [ConsoleError (js ''Submission failed due to invalid form data.'')],
      out_regexp = EMAIL_REGEX_object\<rparr> \<and>
   run_op OnSubmit
     \<lparr>email = js ''bad'', password = js ''secret1'', emailError = [], passwordError = [],
      isSubmitted = True\<rparr>
     (EMAIL_REGEX_object\<lparr>lastIndex := 3\<rparr>)
     \<lparr>out_text = None,
      out_state =
        fold apply_update
          [SetIsSubmitted False, SetPasswordError [],
           SetEmailError (js ''Please enter a valid email address (e.g., user@domain.com).'')]
          \<lparr>email = js ''bad'', password = js ''secret1'', emailError = [], passwordError = [],
           isSubmitted = True\<rparr>,
      out_console = [ConsoleError (js ''Submission failed due to invalid form data.'')],
      out_regexp = EMAIL_REGEX_object\<lparr>lastIndex := 3\<rparr>\<rparr> \<and>
   fold apply_update
     [SetIsSubmitted False, SetPasswordError [],
      SetEmailError (js ''Please enter a valid email address (e.g., user@domain.com).'')]
     \<lparr>email = js ''bad'', password = js ''secret1'', emailError = [], passwordError = [],
      isSubmitted = True\<rparr> =
     \<lparr>email = js ''bad'', password = js ''secret1'',
      emailError = js ''Please enter a valid email address (e.g., user@domain.com).'',
      passwordError = [], isSubmitted = False\<rparr>"
proof -
  let ?s = "\<lparr>email = js ''bad'', password = js ''secret1'', emailError = [],
      passwordError = [], isSubmitted = True\<rparr>"
  let ?msg = "js ''Please enter a valid email address (e.g., user@domain.com).''"
  let ?R1 = "EMAIL_REGEX_object"
  let ?R2 = "EMAIL_REGEX_object\<lparr>lastIndex := 3\<rparr>"
  let ?q = "[SetEmailError ?msg, SetPasswordError [], SetIsSubmitted False]"
  let ?q' = "[SetIsSubmitted False, SetPasswordError [], SetEmailError ?msg]"
  let ?log = "[ConsoleError (js ''Submission failed due to invalid form data.'')]"
  let ?t = "\<lparr>email = js ''bad'', password = js ''secret1'', emailError = ?msg,
      passwordError = [], isSubmitted = False\<rparr>"
  have is1: "is_EMAIL_REGEX ?R1" and is2: "is_EMAIL_REGEX ?R2"
    by (simp_all add: is_EMAIL_REGEX_def EMAIL_REGEX_object_def)
  have ex1: "exec_op OnSubmit ?s ?R1 =
      \<lparr>returned = None, queued = ?q, logged = ?log, regexp_after = ?R1\<rparr>"
    by code_simp
  have ex2: "exec_op OnSubmit ?s ?R2 =
      \<lparr>returned = None, queued = ?q, logged = ?log, regexp_after = ?R2\<rparr>"
    by code_simp
  have p: "mset ?q' = mset ?q"
    by simp
  have f: "fold apply_update ?q ?s = ?t"
    by (simp add: setters)
  have "mset ?q = mset (queued (exec_op OnSubmit ?s ?R1))"
    by (simp only: ex1 call_result.simps)
  from commit [OF this] have run1: "run_op OnSubmit ?s ?R1
      \<lparr>out_text = None, out_state = ?t, out_console = ?log, out_regexp = ?R1\<rparr>"
    by (simp only: ex1 call_result.simps f)
  have "mset ?q' = mset (queued (exec_op OnSubmit ?s ?R2))"
    by (simp only: ex2 call_result.simps p)
  from commit [OF this] have run2: "run_op OnSubmit ?s ?R2
      \<lparr>out_text = None, out_state = fold apply_update ?q' ?s, out_console = ?log,
       out_regexp = ?R2\<rparr>"
    by (simp only: ex2 call_result.simps)
  from operations_deterministic [OF is1 is2 run1 run2]
  have "fold apply_update ?q' ?s = ?t"
    by (simp only: outcome.simps)
  with is1 is2 run1 run2 show ?thesis
    by (simp only: simp_thms)
qed

text \<open>
  The runs of this section are those of the functions of the earlier sections.
\<close>

lemma exec_op_agrees:
  "fold apply_update (queued (exec_op (OnEmailChange v) s EMAIL_REGEX_object)) s =
     handleEmailChange v s"
  "fold apply_update (queued (exec_op (OnPasswordChange v) s EMAIL_REGEX_object)) s =
     handlePasswordChange v s"
  "fold apply_update (queued (exec_op OnSubmit s EMAIL_REGEX_object)) s =
     next_state (handleSubmit s)"
  "logged (exec_op OnSubmit s EMAIL_REGEX_object) = console (handleSubmit s)"
  "returned (exec_op (ValidateEmail v) s EMAIL_REGEX_object) = Some (validateEmail v)"
  "returned (exec_op (ValidatePassword v) s EMAIL_REGEX_object) = Some (validatePassword v)"
proof -
  have R0: "is_EMAIL_REGEX EMAIL_REGEX_object"
    by (simp add: is_EMAIL_REGEX_def EMAIL_REGEX_object_def)
  note v = validateEmail_exec_EMAIL_REGEX [OF R0]
  show "fold apply_update (queued (exec_op (OnEmailChange v) s EMAIL_REGEX_object)) s =
     handleEmailChange v s"
    by (simp add: v handleEmailChange_def)
  show "fold apply_update (queued (exec_op (OnPasswordChange v) s EMAIL_REGEX_object)) s =
     handlePasswordChange v s"
    by (simp add: handlePasswordChange_def)
  show "fold apply_update (queued (exec_op OnSubmit s EMAIL_REGEX_object)) s =
     next_state (handleSubmit s)"
    by (simp add: v handleSubmit_def Let_def)
  show "logged (exec_op OnSubmit s EMAIL_REGEX_object) = console (handleSubmit s)"
    by (simp add: v handleSubmit_def Let_def)
  show "returned (exec_op (ValidateEmail v) s EMAIL_REGEX_object) = Some (validateEmail v)"
    by (simp add: v)
  show "returned (exec_op (ValidatePassword v) s EMAIL_REGEX_object) = Some (validatePassword v)"
    by simp
qed

text \<open>
  Both hypotheses of the determinism carry weight. With the \<^verbatim>\<open>g\<close> flag the same
  call gives two different texts, depending on the \<^verbatim>\<open>lastIndex\<close> an earlier call
  has left; and two updates of one cell give different states in different
  orders.
\<close>

lemma global_flag_not_deterministic:
  "fst (validateEmail_exec \<lparr>source = EMAIL_REGEX, global = True, sticky = False, lastIndex = 0\<rparr>
          (js ''a@b.c'')) = [] \<and>
   fst (validateEmail_exec \<lparr>source = EMAIL_REGEX, global = True, sticky = False, lastIndex = 5\<rparr>
          (js ''a@b.c'')) =
     js ''Please enter a valid email address (e.g., user@domain.com).'' \<and>
   snd (validateEmail_exec \<lparr>source = EMAIL_REGEX, global = True, sticky = False, lastIndex = 0\<rparr>
          (js ''a@b.c'')) =
     \<lparr>source = EMAIL_REGEX, global = True, sticky = False, lastIndex = 5\<rparr>"
  by code_simp

lemma same_cell_order_matters:
  "fold apply_update [SetIsSubmitted False, SetIsSubmitted True] initial_state \<noteq>
   fold apply_update [SetIsSubmitted True, SetIsSubmitted False] initial_state"
  by (simp add: setters initial_state_def)

end
